theory Spec2Isabelle
  imports Complex_Main
begin

section \<open>Python strings\<close>

text \<open>
  A Python \<open>str\<close> is a sequence of Unicode code points, so it is modelled as a list of
  naturals (\<open>ord c\<close> of every character); \<open>len\<close> is \<open>length\<close> and \<open>text[:n]\<close> is
  \<open>take n\<close>.  \<open>lit\<close> reads an ASCII literal of the source.
\<close>

type_synonym str = "nat list"

definition lit :: "string \<Rightarrow> str" where
  "lit s = map of_char s"

text \<open>
  \<open>str.isspace\<close> of one character, the test behind \<open>str.strip()\<close> and \<open>str.split()\<close>
  without arguments: the ASCII controls 9 to 13 and 28 to 31, the space, and the Unicode
  separators U+0085, U+00A0, U+1680, U+2000 to U+200A, U+2028, U+2029, U+202F, U+205F
  and U+3000.
\<close>

definition is_space :: "nat \<Rightarrow> bool" where
  "is_space c =
     ((9 \<le> c \<and> c \<le> 13) \<or> (28 \<le> c \<and> c \<le> 32) \<or> c = 133 \<or> c = 160 \<or> c = 5760 \<or>
      (8192 \<le> c \<and> c \<le> 8202) \<or> c = 8232 \<or> c = 8233 \<or> c = 8239 \<or> c = 8287 \<or>
      c = 12288)"

text \<open>\<open>text.strip()\<close>: leading and trailing whitespace removed.\<close>

definition py_strip :: "str \<Rightarrow> str" where
  "py_strip t = rev (dropWhile is_space (rev (dropWhile is_space t)))"

text \<open>
  \<open>text.split()\<close>: the maximal runs of non-whitespace characters, in order.  \<open>cur\<close> is
  the word being read, reversed.
\<close>

fun split_from :: "str \<Rightarrow> str \<Rightarrow> str list" where
  "split_from cur [] = (if cur = [] then [] else [rev cur])"
| "split_from cur (c # cs) =
     (if is_space c
      then (if cur = [] then split_from [] cs else rev cur # split_from [] cs)
      else split_from (c # cur) cs)"

definition py_split :: "str \<Rightarrow> str list" where
  "py_split t = split_from [] t"

text \<open>
  \<open>text.lower()\<close>.  On a character below 128 it maps \<open>A\<close> to \<open>Z\<close> onto \<open>a\<close> to \<open>z\<close> and
  leaves the rest alone.  The lower-casing of the other characters is the Unicode
  database's, which is no part of this repository: it is the parameter \<open>ul\<close>, which
  gets the whole string and the position (the capital sigma lower-cases by context) and
  returns the characters that replace the one at that position.
\<close>

definition ascii_lower :: "nat \<Rightarrow> nat" where
  "ascii_lower c = (if 65 \<le> c \<and> c \<le> 90 then c + 32 else c)"

fun lower_from :: "(str \<Rightarrow> nat \<Rightarrow> str) \<Rightarrow> str \<Rightarrow> nat \<Rightarrow> str \<Rightarrow> str" where
  "lower_from ul whole i [] = []"
| "lower_from ul whole i (c # cs) =
     (if c < 128 then [ascii_lower c] else ul whole i) @ lower_from ul whole (Suc i) cs"

definition py_lower :: "(str \<Rightarrow> nat \<Rightarrow> str) \<Rightarrow> str \<Rightarrow> str" where
  "py_lower ul t = lower_from ul t 0 t"

text \<open>\<open>marker in text\<close>: \<open>marker\<close> occurs in \<open>text\<close> as a contiguous substring.\<close>

fun startswith :: "str \<Rightarrow> str \<Rightarrow> bool" where
  "startswith t [] = True"
| "startswith [] (m # ms) = False"
| "startswith (c # cs) (m # ms) = (c = m \<and> startswith cs ms)"

fun py_in :: "str \<Rightarrow> str \<Rightarrow> bool" where
  "py_in m [] = (m = [])"
| "py_in m (c # cs) = (startswith (c # cs) m \<or> py_in m cs)"

section \<open>Exceptions, collaborators and calls\<close>

text \<open>
  The exceptions the service tells apart.  Each carries its message; \<open>AppError\<close> also
  carries its cause (\<open>raise AppError(...) from e\<close>).  \<open>TranslationError\<close> and
  \<open>AppError\<close> come from \<open>core.exceptions\<close> and \<open>LangDetectException\<close> from
  \<open>langdetect\<close>; all three are instances of \<open>Exception\<close>.  \<open>OtherException\<close> is any
  other instance of \<open>Exception\<close>.  \<open>NonException\<close> is an instance of \<open>BaseException\<close>
  that is no instance of \<open>Exception\<close> (\<open>KeyboardInterrupt\<close>, \<open>SystemExit\<close>, the
  \<open>asyncio.CancelledError\<close> of a cancelled await): \<open>except Exception\<close> does not catch
  it.
\<close>

datatype exn =
    LangDetectException str
  | TranslationError str
  | AppError str "exn option"
  | OtherException str
  | NonException str

fun is_Exception :: "exn \<Rightarrow> bool" where
  "is_Exception (NonException msg) = False"
| "is_Exception e = True"

fun is_TranslationError :: "exn \<Rightarrow> bool" where
  "is_TranslationError (TranslationError msg) = True"
| "is_TranslationError e = False"

text \<open>
  What the service is given and does not define: \<open>langdetect.detect\<close>, the completion
  client (\<open>acomplete\<close> takes the prompt and gives \<open>completion.text\<close>), the translator,
  the configured word threshold, and the lower-casing of the characters from 128 on.
  A collaborator returns a string or raises.
\<close>

record env =
  detect :: "str \<Rightarrow> exn + str"
  acomplete :: "str \<Rightarrow> exn + str"
  translate :: "str \<Rightarrow> exn + str"
  SHORT_INPUT_WORD_THRESHOLD :: int
  unicode_lower :: "str \<Rightarrow> nat \<Rightarrow> str"

text \<open>The calls a function makes, in order, each with its argument.\<close>

datatype event =
    Call_detect str
  | Call_acomplete str
  | Call_translate str
  | Call_detect_language_statistical str
  | Call_detect_language_llm str
  | Call_detect_language str

fun is_llm_call :: "event \<Rightarrow> bool" where
  "is_llm_call (Call_detect_language_llm t) = True"
| "is_llm_call e = False"

fun is_statistical_call :: "event \<Rightarrow> bool" where
  "is_statistical_call (Call_detect_language_statistical t) = True"
| "is_statistical_call e = False"

fun is_translate_call :: "event \<Rightarrow> bool" where
  "is_translate_call (Call_translate t) = True"
| "is_translate_call e = False"

section \<open>Constants of the module\<close>

definition SUPPORTED_LANGS :: "str list" where
  "SUPPORTED_LANGS = [lit ''en'', lit ''es'']"

definition UNKNOWN_LANG_CODE :: str where
  "UNKNOWN_LANG_CODE = lit ''unknown''"

text \<open>
  \<open>ISO_639_1_PATTERN.match(s)\<close> for the pattern \<open>^[a-z]{2}$\<close>.  Python's \<open>$\<close> matches at
  the end of the string and also just before a newline that ends the string, so the
  pattern accepts two letters, and two letters followed by one newline.
\<close>

definition is_az :: "nat \<Rightarrow> bool" where
  "is_az c = (97 \<le> c \<and> c \<le> 122)"

fun ISO_639_1_PATTERN_match :: "str \<Rightarrow> bool" where
  "ISO_639_1_PATTERN_match [a, b] = (is_az a \<and> is_az b)"
| "ISO_639_1_PATTERN_match [a, b, c] = (is_az a \<and> is_az b \<and> c = 10)"
| "ISO_639_1_PATTERN_match s = False"

text \<open>
  \<open>LANG_DETECT_PROMPT_TEMPLATE.format(user_input=...)\<close>: the prompt text with the input
  in the place of \<open>{user_input}\<close>.
\<close>

definition LANG_DETECT_PROMPT_format :: "str \<Rightarrow> str" where
  "LANG_DETECT_PROMPT_format user_input =
     lit ''Identify the primary language of the following text. '' @
     lit ''Respond with ONLY the two-letter ISO 639-1 language code (e.g., 'en', 'es', 'fr'). '' @
     lit ''If you are unsure, the text is nonsensical, gibberish, or not a real language, '' @
     lit ''respond with '' @ [39] @ UNKNOWN_LANG_CODE @ [39] @ lit ''. Text:'' @ [10] @
     user_input @ [10] @ lit ''Language code:''"

definition english_markers :: "str list" where
  "english_markers =
     [lit ''let's'', lit ''let us'', lit ''we'll'', lit ''we will'',
      lit ''i'm'', lit ''i am'', lit ''you're'', lit ''you are'']"

section \<open>The detectors\<close>

text \<open>
  \<open>_detect_language_statistical\<close>.  Both handlers return the unknown code; an exception
  that is no instance of \<open>Exception\<close> passes them.
\<close>

definition detect_language_statistical :: "env \<Rightarrow> str \<Rightarrow> event list \<times> (exn + str)" where
  "detect_language_statistical env t =
     ([Call_detect t],
      case detect env t of
        Inr detected_lang \<Rightarrow>
          if ISO_639_1_PATTERN_match detected_lang
          then Inr (py_lower (unicode_lower env) detected_lang)
          else Inr UNKNOWN_LANG_CODE
      | Inl e \<Rightarrow> if is_Exception e then Inr UNKNOWN_LANG_CODE else Inl e)"

text \<open>\<open>_detect_language_llm\<close>.\<close>

definition detect_language_llm :: "env \<Rightarrow> str \<Rightarrow> event list \<times> (exn + str)" where
  "detect_language_llm env t =
     (let detection_text = (if length t > 100 then take 100 t else t);
          prompt = LANG_DETECT_PROMPT_format detection_text
      in ([Call_acomplete prompt],
          case acomplete env prompt of
            Inr completion_text \<Rightarrow>
              (let detected_lang = py_lower (unicode_lower env) (py_strip completion_text)
               in if detected_lang = UNKNOWN_LANG_CODE \<or> ISO_639_1_PATTERN_match detected_lang
                  then Inr detected_lang
                  else Inr UNKNOWN_LANG_CODE)
          | Inl e \<Rightarrow> if is_Exception e then Inr UNKNOWN_LANG_CODE else Inl e))"

text \<open>
  The share of the characters below 128, as \<open>_detect_language\<close> computes it: the count
  over the length, over 1 for the empty string.  Python rounds the quotient and the
  literal \<open>0.9\<close> to double precision; the model keeps both exact.  A quotient of counts
  that is above nine tenths is above it by at least one over ten times the length, which
  is more than the rounding error of a double for every text of fewer than
  \<open>2\<^sup>5\<^sup>0\<close> characters, and a quotient that is not above nine tenths rounds to at
  most the double of \<open>0.9\<close>; so up to that length the comparison is the one Python
  makes.
\<close>

definition ascii_ratio :: "str \<Rightarrow> rat" where
  "ascii_ratio t =
     (let ascii_chars = length (filter (\<lambda>c. c < 128) t);
          total_chars = (if t \<noteq> [] then length t else 1)
      in of_nat ascii_chars / of_nat total_chars)"

text \<open>
  The detector of the tier: the LLM up to the word threshold, the classifier above it.
\<close>

definition tier_detect :: "env \<Rightarrow> str \<Rightarrow> event list \<times> (exn + str)" where
  "tier_detect env t =
     (let word_count = int (length (py_split t))
      in if word_count \<le> SHORT_INPUT_WORD_THRESHOLD env
         then (let (calls, r) = detect_language_llm env t
               in (Call_detect_language_llm t # calls, r))
         else (let (calls, r) = detect_language_statistical env t
               in (Call_detect_language_statistical t # calls, r)))"

text \<open>\<open>_detect_language\<close>: the markers, the tier, the safeguard for mostly ASCII text.\<close>

definition detect_language :: "env \<Rightarrow> str \<Rightarrow> event list \<times> (exn + str)" where
  "detect_language env t =
     (let text_lower = py_lower (unicode_lower env) t
      in if list_ex (\<lambda>marker. py_in marker text_lower) english_markers
         then ([], Inr (lit ''en''))
         else
           (let (calls, r) = tier_detect env t
            in case r of
                 Inl e \<Rightarrow> (calls, Inl e)
               | Inr detected_lang \<Rightarrow>
                   if detected_lang \<notin> set SUPPORTED_LANGS \<and> detected_lang \<noteq> UNKNOWN_LANG_CODE
                   then (if ascii_ratio t > 9 / 10
                         then (calls, Inr (lit ''en''))
                         else (calls, Inr detected_lang))
                   else (calls, Inr detected_lang)))"

section \<open>The service\<close>

text \<open>
  One run of \<open>translate_text\<close>: the calls it made, the value of its variable
  \<open>detected_lang\<close> (the field \<open>detected\<close>, \<open>None\<close> when the run never assigned it),
  and what it returned or raised.
\<close>

record run =
  calls :: "event list"
  detected :: "str option"
  outcome :: "exn + str"

definition unsupported_message :: "str \<Rightarrow> str" where
  "unsupported_message code =
     lit ''Sorry, I currently only support English ('en') and Spanish ('es'). '' @
     lit ''Detected: '' @ code"

definition translate_text :: "env \<Rightarrow> str \<Rightarrow> run" where
  "translate_text env t =
     (if py_strip t = []
      then \<lparr>calls = [], detected = None,
            outcome = Inr (lit ''Please provide some text to translate.'')\<rparr>
      else
        (let (calls1, r) = detect_language env t
         in case r of
              Inl e \<Rightarrow>
                \<lparr>calls = Call_detect_language t # calls1, detected = None,
                 outcome =
                   (if is_Exception e
                    then Inl (AppError
                           (lit ''An unexpected error occurred during language detection setup.'')
                           (Some e))
                    else Inl e)\<rparr>
            | Inr code \<Rightarrow>
                if code \<notin> set SUPPORTED_LANGS \<and> code \<noteq> UNKNOWN_LANG_CODE
                then \<lparr>calls = Call_detect_language t # calls1, detected = Some code,
                      outcome = Inr (unsupported_message code)\<rparr>
                else
                  \<lparr>calls = Call_detect_language t # calls1 @ [Call_translate t],
                   detected = Some code,
                   outcome =
                     (case translate env t of
                        Inr translated_text \<Rightarrow> Inr translated_text
                      | Inl e \<Rightarrow>
                          if is_TranslationError e then Inl e
                          else if is_Exception e
                          then Inl (AppError
                                 (lit ''An unexpected error occurred during the translation process.'')
                                 (Some e))
                          else Inl e)\<rparr>))"

section \<open>Example collaborators\<close>

text \<open>
  Concrete collaborators for the examples below.  \<open>always r\<close> answers \<open>r\<close> to every
  argument; \<open>keep_char\<close> lower-cases a character from 128 on to itself, as Unicode does
  for a letter that is lower-case already.  In \<open>example_env\<close> the classifier answers
  \<open>es\<close>, the completion client answers \<open>ES\<close> between spaces and a newline, the
  translator answers a fixed sentence, and the threshold is three words.
\<close>

definition always :: "exn + str \<Rightarrow> str \<Rightarrow> exn + str" where
  "always r t = r"

definition keep_char :: "str \<Rightarrow> nat \<Rightarrow> str" where
  "keep_char whole i = [whole ! i]"

definition example_env :: env where
  "example_env =
     \<lparr>detect = always (Inr (lit ''es'')),
      acomplete = always (Inr (lit '' ES '' @ [10])),
      translate = always (Inr (lit ''che, vamos'')),
      SHORT_INPUT_WORD_THRESHOLD = 3,
      unicode_lower = keep_char\<rparr>"

text \<open>
  Example inputs.  \<open>short_text\<close> has two words and \<open>long_text\<close> five;
  \<open>french_text\<close> is all ASCII; \<open>nine_of_ten_text\<close> has nine ASCII characters in
  ten; \<open>accented_text\<close> has four words and three ASCII characters in seven;
  \<open>question_text\<close> is one word with three ASCII characters in five.
\<close>

definition short_text :: str where
  "short_text = lit ''hola che''"

definition long_text :: str where
  "long_text =
     lit ''Hola, '' @ [191] @ lit ''c'' @ [243] @ lit ''mo est'' @ [225] @ lit ''s? Todo bien''"

definition french_text :: str where
  "french_text = lit ''Bonjour tout le monde''"

definition nine_of_ten_text :: str where
  "nine_of_ten_text = lit ''a b c d e'' @ [241]"

definition accented_text :: str where
  "accented_text = [241, 32, 241, 32, 241, 32, 241]"

definition question_text :: str where
  "question_text = [191, 113, 117, 233, 63]"

text \<open>Exceptions outside \<open>Exception\<close>: a cancelled await and an interrupt.\<close>

definition cancelled :: exn where
  "cancelled = NonException (lit ''CancelledError'')"

definition interrupted :: exn where
  "interrupted = NonException (lit ''KeyboardInterrupt'')"

section \<open>Properties\<close>

lemmas model_defs =
  detect_language_def tier_detect_def detect_language_llm_def detect_language_statistical_def
  translate_text_def py_lower_def py_split_def py_strip_def english_markers_def lit_def
  SUPPORTED_LANGS_def UNKNOWN_LANG_CODE_def ascii_ratio_def ascii_lower_def is_space_def
  is_az_def LANG_DETECT_PROMPT_format_def unsupported_message_def example_env_def always_def
  keep_char_def

subsection \<open>Substrings and whitespace\<close>

lemma startswith_iff: "startswith t m \<longleftrightarrow> (\<exists>ys. t = m @ ys)"
  by (induction t m rule: startswith.induct) auto

lemma py_in_iff: "py_in m t \<longleftrightarrow> (\<exists>xs ys. t = xs @ m @ ys)"
proof (induction t)
  case Nil
  then show ?case by auto
next
  case (Cons c cs)
  show ?case
  proof
    assume "py_in m (c # cs)"
    then consider "startswith (c # cs) m" | "py_in m cs" by auto
    then show "\<exists>xs ys. c # cs = xs @ m @ ys"
    proof cases
      case 1
      then obtain ys where "c # cs = m @ ys" by (auto simp: startswith_iff)
      then have "c # cs = [] @ m @ ys" by simp
      then show ?thesis by blast
    next
      case 2
      then obtain xs ys where "cs = xs @ m @ ys" using Cons.IH by auto
      then have "c # cs = (c # xs) @ m @ ys" by simp
      then show ?thesis by blast
    qed
  next
    assume "\<exists>xs ys. c # cs = xs @ m @ ys"
    then obtain xs ys where e: "c # cs = xs @ m @ ys" by auto
    show "py_in m (c # cs)"
    proof (cases xs)
      case Nil
      then have "startswith (c # cs) m" using e by (auto simp: startswith_iff)
      then show ?thesis by simp
    next
      case (Cons x xs')
      then have "cs = xs' @ m @ ys" using e by simp
      then have "py_in m cs" using Cons.IH by blast
      then show ?thesis by simp
    qed
  qed
qed

lemma py_strip_empty_iff: "py_strip t = [] \<longleftrightarrow> (\<forall>c \<in> set t. is_space c)"
proof
  assume "py_strip t = []"
  then have a: "\<forall>x \<in> set (dropWhile is_space t). is_space x"
    by (simp add: py_strip_def dropWhile_eq_Nil_conv)
  have "dropWhile is_space t = []"
  proof (rule ccontr)
    assume n: "dropWhile is_space t \<noteq> []"
    then have "\<not> is_space (hd (dropWhile is_space t))" by (rule hd_dropWhile)
    moreover have "hd (dropWhile is_space t) \<in> set (dropWhile is_space t)" using n by simp
    ultimately show False using a by blast
  qed
  then show "\<forall>c \<in> set t. is_space c" by (simp add: dropWhile_eq_Nil_conv)
next
  assume "\<forall>c \<in> set t. is_space c"
  then show "py_strip t = []" by (auto simp: py_strip_def dest: set_dropWhileD)
qed

subsection \<open>The English markers\<close>

lemma marker_short_circuit:
  assumes "m \<in> set english_markers" and "py_in m (py_lower (unicode_lower env) t)"
  shows "detect_language env t = ([], Inr (lit ''en''))"
proof -
  have "list_ex (\<lambda>marker. py_in marker (py_lower (unicode_lower env) t)) english_markers"
    using assms by (auto simp: list_ex_iff)
  then show ?thesis by (simp add: detect_language_def)
qed

text \<open>
  C2.  When the lower-cased text contains one of the markers (\<open>let's\<close>, \<open>let us\<close>,
  \<open>we'll\<close>, \<open>we will\<close>, \<open>i'm\<close>, \<open>i am\<close>, \<open>you're\<close>, \<open>you are\<close>),
  \<open>_detect_language\<close> returns \<open>en\<close> and has made no call: neither detector is invoked.
  The statement holds for every environment, so for every behaviour of the classifier
  and of the completion client.
\<close>

theorem marker_returns_en_without_detectors:
  assumes "m \<in> set english_markers"
    and "py_in m (py_lower (unicode_lower env) t)"
  shows "detect_language env t = ([], Inr (lit ''en''))"
  using assms by (rule marker_short_circuit)

theorem marker_returns_en_without_detectors_witness:
  "lit ''let's'' \<in> set english_markers \<and>
   py_in (lit ''let's'') (py_lower (unicode_lower example_env) (lit ''Well, LET'S go'')) \<and>
   detect_language example_env (lit ''Well, LET'S go'') = ([], Inr (lit ''en''))"
proof -
  have h1: "lit ''let's'' \<in> set english_markers"
    by (simp add: model_defs)
  have h2: "py_in (lit ''let's'') (py_lower (unicode_lower example_env) (lit ''Well, LET'S go''))"
    by (simp add: model_defs)
  show ?thesis
    using marker_returns_en_without_detectors [OF h1 h2] h1 h2 by simp
qed

text \<open>
  C10.  The marker test is substring containment in the lower-cased text and knows no
  word boundary: whatever stands before and after the marker (\<open>xs\<close> and \<open>ys\<close>, which
  may end and start inside a word), \<open>_detect_language\<close> returns \<open>en\<close> and calls no
  detector.  The Spanish \<open>mi amor\<close> is an instance: it contains \<open>i am\<close>.
\<close>

theorem marker_inside_other_words_returns_en:
  assumes "m \<in> set english_markers"
    and "py_lower (unicode_lower env) t = xs @ m @ ys"
  shows "detect_language env t = ([], Inr (lit ''en''))"
proof -
  have "py_in m (py_lower (unicode_lower env) t)"
    using assms(2) py_in_iff by blast
  with assms(1) show ?thesis by (rule marker_short_circuit)
qed

theorem marker_inside_other_words_returns_en_witness:
  "lit ''i am'' \<in> set english_markers \<and>
   py_lower (unicode_lower example_env) (lit ''mi amor'') = lit ''m'' @ lit ''i am'' @ lit ''or'' \<and>
   detect_language example_env (lit ''mi amor'') = ([], Inr (lit ''en''))"
proof -
  have h1: "lit ''i am'' \<in> set english_markers"
    by (simp add: model_defs)
  have h2: "py_lower (unicode_lower example_env) (lit ''mi amor'') =
      lit ''m'' @ lit ''i am'' @ lit ''or''"
    by (simp add: model_defs)
  show ?thesis
    using marker_inside_other_words_returns_en [OF h1 h2] h1 h2 by simp
qed

subsection \<open>Empty input\<close>

text \<open>
  C6.  When every character of the input is whitespace (the empty input included),
  \<open>translate_text\<close> returns the fixed prompt and has made no call: not to
  \<open>_detect_language\<close>, so to no detector, and not to the translator.
\<close>

theorem whitespace_input_returns_prompt:
  assumes "\<forall>c \<in> set t. is_space c"
  shows "translate_text env t =
    \<lparr>calls = [], detected = None,
     outcome = Inr (lit ''Please provide some text to translate.'')\<rparr>"
proof -
  have "py_strip t = []" using assms by (simp add: py_strip_empty_iff)
  then show ?thesis by (simp add: translate_text_def)
qed

theorem whitespace_input_returns_prompt_witness:
  "list_all is_space [32, 9, 10, 12288] \<and>
   translate_text example_env [32, 9, 10, 12288] =
     \<lparr>calls = [], detected = None,
      outcome = Inr (lit ''Please provide some text to translate.'')\<rparr> \<and>
   translate_text example_env [] =
     \<lparr>calls = [], detected = None,
      outcome = Inr (lit ''Please provide some text to translate.'')\<rparr>"
proof -
  have h: "\<forall>c \<in> set [32, 9, 10, 12288]. is_space c"
    by (simp add: is_space_def)
  have e: "\<forall>c \<in> set ([] :: str). is_space c"
    by simp
  show ?thesis
    using whitespace_input_returns_prompt [OF h, of example_env]
      whitespace_input_returns_prompt [OF e, of example_env] h
    by (simp add: list_all_iff)
qed

subsection \<open>The LLM detector reads the first 100 characters\<close>

text \<open>
  C9.  \<open>_detect_language_llm\<close> makes one call, to the completion client, and the prompt
  holds \<open>text[:100]\<close> when the text is longer than 100 characters and the whole text
  otherwise.  So, with the same completion client, the detector does on \<open>text\<close> what it
  does on \<open>text[:100]\<close>: the same call and the same result.
\<close>

theorem llm_detector_reads_first_100:
  "fst (detect_language_llm env t) =
     [Call_acomplete (LANG_DETECT_PROMPT_format (if length t > 100 then take 100 t else t))] \<and>
   detect_language_llm env t = detect_language_llm env (take 100 t)"
  by (simp add: detect_language_llm_def Let_def)

subsection \<open>The tier and the safeguard\<close>

lemma detect_language_no_marker:
  assumes "\<forall>m \<in> set english_markers. \<not> py_in m (py_lower (unicode_lower env) t)"
  shows "detect_language env t =
    (fst (tier_detect env t),
     case snd (tier_detect env t) of
       Inl e \<Rightarrow> Inl e
     | Inr d \<Rightarrow>
         if d \<notin> set SUPPORTED_LANGS \<and> d \<noteq> UNKNOWN_LANG_CODE \<and> ascii_ratio t > 9 / 10
         then Inr (lit ''en'') else Inr d)"
  using assms
  by (simp add: detect_language_def list_ex_iff Let_def split: prod.splits sum.splits)

lemma tier_detect_calls:
  "fst (tier_detect env t) =
     (if int (length (py_split t)) \<le> SHORT_INPUT_WORD_THRESHOLD env
      then [Call_detect_language_llm t,
            Call_acomplete (LANG_DETECT_PROMPT_format (if length t > 100 then take 100 t else t))]
      else [Call_detect_language_statistical t, Call_detect t])"
  by (simp add: tier_detect_def detect_language_llm_def detect_language_statistical_def Let_def)

lemma detect_language_calls:
  "fst (detect_language env t) =
     (if list_ex (\<lambda>marker. py_in marker (py_lower (unicode_lower env) t)) english_markers
      then [] else fst (tier_detect env t))"
  by (simp add: detect_language_def Let_def split: prod.splits sum.splits)

lemma detect_language_never_translates:
  "filter is_translate_call (fst (detect_language env t)) = []"
  by (simp add: detect_language_calls tier_detect_calls)

lemma no_marker_short_text:
  "\<forall>m \<in> set english_markers. \<not> py_in m (py_lower (unicode_lower example_env) short_text)"
  by (simp add: model_defs short_text_def)

lemma no_marker_long_text:
  "\<forall>m \<in> set english_markers. \<not> py_in m (py_lower (unicode_lower example_env) long_text)"
  by (simp add: model_defs long_text_def)

text \<open>
  C3.  When no marker matches, \<open>_detect_language\<close> invokes exactly one detector, once:
  the LLM detector when the number of whitespace-separated words is at most the
  configured threshold, the statistical detector when it is greater.  The other
  detector is not invoked.
\<close>

theorem tier_invokes_exactly_one_detector:
  assumes "\<forall>m \<in> set english_markers. \<not> py_in m (py_lower (unicode_lower env) t)"
  shows "(int (length (py_split t)) \<le> SHORT_INPUT_WORD_THRESHOLD env \<longrightarrow>
            length (filter is_llm_call (fst (detect_language env t))) = 1 \<and>
            length (filter is_statistical_call (fst (detect_language env t))) = 0) \<and>
         (int (length (py_split t)) > SHORT_INPUT_WORD_THRESHOLD env \<longrightarrow>
            length (filter is_statistical_call (fst (detect_language env t))) = 1 \<and>
            length (filter is_llm_call (fst (detect_language env t))) = 0)"
  by (simp add: detect_language_no_marker [OF assms] tier_detect_calls)

theorem tier_invokes_exactly_one_detector_witness:
  "int (length (py_split short_text)) \<le> SHORT_INPUT_WORD_THRESHOLD example_env \<and>
   length (filter is_llm_call (fst (detect_language example_env short_text))) = 1 \<and>
   length (filter is_statistical_call (fst (detect_language example_env short_text))) = 0 \<and>
   int (length (py_split long_text)) > SHORT_INPUT_WORD_THRESHOLD example_env \<and>
   length (filter is_statistical_call (fst (detect_language example_env long_text))) = 1 \<and>
   length (filter is_llm_call (fst (detect_language example_env long_text))) = 0"
proof -
  have w1: "int (length (py_split short_text)) \<le> SHORT_INPUT_WORD_THRESHOLD example_env"
    by (simp add: model_defs short_text_def long_text_def)
  have w2: "int (length (py_split long_text)) > SHORT_INPUT_WORD_THRESHOLD example_env"
    by (simp add: model_defs short_text_def long_text_def)
  show ?thesis
    using tier_invokes_exactly_one_detector [OF no_marker_short_text]
      tier_invokes_exactly_one_detector [OF no_marker_long_text] w1 w2
    by simp
qed

lemma ascii_ratio_gt_iff:
  "ascii_ratio t > 9 / 10 \<longleftrightarrow> 10 * length (filter (\<lambda>c. c < 128) t) > 9 * length t"
proof (cases "t = []")
  case True
  then show ?thesis by (simp add: ascii_ratio_def)
next
  case False
  then have pos: "(0::rat) < of_nat (length t)" by simp
  have "ascii_ratio t > 9 / 10 \<longleftrightarrow>
      (9::rat) * of_nat (length t) < 10 * of_nat (length (filter (\<lambda>c. c < 128) t))"
    using pos False by (simp add: ascii_ratio_def field_simps)
  also have "\<dots> \<longleftrightarrow>
      (of_nat (9 * length t) :: rat) < of_nat (10 * length (filter (\<lambda>c. c < 128) t))"
    by simp
  also have "\<dots> \<longleftrightarrow> 9 * length t < 10 * length (filter (\<lambda>c. c < 128) t)"
    by (rule of_nat_less_iff)
  finally show ?thesis .
qed

text \<open>
  C4.  The tier detects a code only when no marker matched.  When the code it returns
  is neither \<open>en\<close> nor \<open>es\<close> nor the unknown code, \<open>_detect_language\<close> returns \<open>en\<close> if
  the share of the input's characters below 128 is greater than 0.9, and the detected
  code itself if the share is 0.9 or less.  The share is \<open>ascii_ratio\<close>, the exact
  quotient (see \<open>ascii_ratio_gt_iff\<close>).
\<close>

theorem ascii_safeguard:
  assumes "\<forall>m \<in> set english_markers. \<not> py_in m (py_lower (unicode_lower env) t)"
    and "snd (tier_detect env t) = Inr code"
    and "code \<notin> set SUPPORTED_LANGS"
    and "code \<noteq> UNKNOWN_LANG_CODE"
  shows "snd (detect_language env t) = Inr (if ascii_ratio t > 9 / 10 then lit ''en'' else code)"
  using assms(2-4) by (simp add: detect_language_no_marker [OF assms(1)])

theorem ascii_safeguard_witness:
  "ascii_ratio french_text = 1 \<and>
   snd (detect_language (example_env\<lparr>detect := always (Inr (lit ''fr''))\<rparr>) french_text) =
     Inr (lit ''en'') \<and>
   ascii_ratio nine_of_ten_text = 9 / 10 \<and>
   snd (detect_language (example_env\<lparr>detect := always (Inr (lit ''fr''))\<rparr>) nine_of_ten_text) =
     Inr (lit ''fr'')"
proof -
  let ?env = "example_env\<lparr>detect := always (Inr (lit ''fr''))\<rparr>"
  have m1: "\<forall>m \<in> set english_markers. \<not> py_in m (py_lower (unicode_lower ?env) french_text)"
    by (simp add: model_defs french_text_def nine_of_ten_text_def)
  have m2: "\<forall>m \<in> set english_markers. \<not> py_in m (py_lower (unicode_lower ?env) nine_of_ten_text)"
    by (simp add: model_defs french_text_def nine_of_ten_text_def)
  have t1: "snd (tier_detect ?env french_text) = Inr (lit ''fr'')"
    by (simp add: model_defs french_text_def nine_of_ten_text_def)
  have t2: "snd (tier_detect ?env nine_of_ten_text) = Inr (lit ''fr'')"
    by (simp add: model_defs french_text_def nine_of_ten_text_def)
  have s: "lit ''fr'' \<notin> set SUPPORTED_LANGS"
    by (simp add: model_defs french_text_def nine_of_ten_text_def)
  have u: "lit ''fr'' \<noteq> UNKNOWN_LANG_CODE"
    by (simp add: model_defs french_text_def nine_of_ten_text_def)
  have r1: "ascii_ratio french_text = 1"
    by (simp add: model_defs french_text_def nine_of_ten_text_def)
  have r2: "ascii_ratio nine_of_ten_text = 9 / 10"
    by (simp add: model_defs french_text_def nine_of_ten_text_def)
  show ?thesis
    using ascii_safeguard [OF m1 t1 s u] ascii_safeguard [OF m2 t2 s u] r1 r2
    by simp
qed

subsection \<open>The sub-detectors and failures\<close>

text \<open>
  C5, as stated, fails: an exception that is no instance of \<open>Exception\<close> passes
  \<open>except Exception\<close>, so a detector raises it to its caller.  The completion client
  raising the \<open>CancelledError\<close> of a cancelled await makes \<open>_detect_language_llm\<close> raise
  it, and an interrupt in the classifier makes \<open>_detect_language_statistical\<close> raise it.
\<close>

theorem detector_raises_non_Exception:
  "snd (detect_language_llm (example_env\<lparr>acomplete := always (Inl cancelled)\<rparr>) short_text) =
     Inl cancelled \<and>
   snd (detect_language_statistical (example_env\<lparr>detect := always (Inl interrupted)\<rparr>) long_text) =
     Inl interrupted"
  by (simp add: model_defs short_text_def long_text_def cancelled_def interrupted_def)

text \<open>
  C5, amended.  For each sub-detector: an output that fails the pattern, as Python
  matches it (for the LLM detector, a trimmed and lower-cased completion that fails the
  pattern and is not the unknown code), gives the unknown code; an exception that is an instance of \<open>Exception\<close>
  gives the unknown code; and the detector raises only when its collaborator raised an
  exception that is no instance of \<open>Exception\<close>, which it passes on unchanged.
\<close>

theorem detectors_absorb_Exception_instances:
  "(\<forall>d. detect env t = Inr d \<and> \<not> ISO_639_1_PATTERN_match d \<longrightarrow>
       snd (detect_language_statistical env t) = Inr UNKNOWN_LANG_CODE) \<and>
   (\<forall>e. detect env t = Inl e \<and> is_Exception e \<longrightarrow>
       snd (detect_language_statistical env t) = Inr UNKNOWN_LANG_CODE) \<and>
   (\<forall>e. snd (detect_language_statistical env t) = Inl e \<longrightarrow>
       detect env t = Inl e \<and> \<not> is_Exception e) \<and>
   (\<forall>out. acomplete env (LANG_DETECT_PROMPT_format (take 100 t)) = Inr out \<and>
       py_lower (unicode_lower env) (py_strip out) \<noteq> UNKNOWN_LANG_CODE \<and>
       \<not> ISO_639_1_PATTERN_match (py_lower (unicode_lower env) (py_strip out)) \<longrightarrow>
       snd (detect_language_llm env t) = Inr UNKNOWN_LANG_CODE) \<and>
   (\<forall>e. acomplete env (LANG_DETECT_PROMPT_format (take 100 t)) = Inl e \<and> is_Exception e \<longrightarrow>
       snd (detect_language_llm env t) = Inr UNKNOWN_LANG_CODE) \<and>
   (\<forall>e. snd (detect_language_llm env t) = Inl e \<longrightarrow>
       acomplete env (LANG_DETECT_PROMPT_format (take 100 t)) = Inl e \<and> \<not> is_Exception e)"
proof -
  have dt: "(if 100 < length t then take 100 t else t) = take 100 t" by simp
  have s: "(\<forall>d. detect env t = Inr d \<and> \<not> ISO_639_1_PATTERN_match d \<longrightarrow>
       snd (detect_language_statistical env t) = Inr UNKNOWN_LANG_CODE) \<and>
   (\<forall>e. detect env t = Inl e \<and> is_Exception e \<longrightarrow>
       snd (detect_language_statistical env t) = Inr UNKNOWN_LANG_CODE) \<and>
   (\<forall>e. snd (detect_language_statistical env t) = Inl e \<longrightarrow>
       detect env t = Inl e \<and> \<not> is_Exception e)"
    by (auto simp: detect_language_statistical_def split: sum.splits if_splits)
  have l: "(\<forall>out. acomplete env (LANG_DETECT_PROMPT_format (take 100 t)) = Inr out \<and>
       py_lower (unicode_lower env) (py_strip out) \<noteq> UNKNOWN_LANG_CODE \<and>
       \<not> ISO_639_1_PATTERN_match (py_lower (unicode_lower env) (py_strip out)) \<longrightarrow>
       snd (detect_language_llm env t) = Inr UNKNOWN_LANG_CODE) \<and>
   (\<forall>e. acomplete env (LANG_DETECT_PROMPT_format (take 100 t)) = Inl e \<and> is_Exception e \<longrightarrow>
       snd (detect_language_llm env t) = Inr UNKNOWN_LANG_CODE) \<and>
   (\<forall>e. snd (detect_language_llm env t) = Inl e \<longrightarrow>
       acomplete env (LANG_DETECT_PROMPT_format (take 100 t)) = Inl e \<and> \<not> is_Exception e)"
    unfolding detect_language_llm_def Let_def dt
    by (auto split: sum.splits if_splits)
  from s l show ?thesis by blast
qed

theorem detectors_absorb_Exception_instances_witness:
  "snd (detect_language_statistical
         (example_env\<lparr>detect := always (Inr (lit ''zh-cn''))\<rparr>) long_text) =
     Inr UNKNOWN_LANG_CODE \<and>
   snd (detect_language_statistical
         (example_env\<lparr>detect := always (Inl (LangDetectException (lit ''No features in text.'')))\<rparr>)
         long_text) =
     Inr UNKNOWN_LANG_CODE \<and>
   snd (detect_language_llm
         (example_env\<lparr>acomplete := always (Inr (lit ''Spanish''))\<rparr>) short_text) =
     Inr UNKNOWN_LANG_CODE \<and>
   snd (detect_language_llm
         (example_env\<lparr>acomplete := always (Inl (OtherException (lit ''Connection error.'')))\<rparr>)
         short_text) =
     Inr UNKNOWN_LANG_CODE"
proof -
  let ?e1 = "example_env\<lparr>detect := always (Inr (lit ''zh-cn''))\<rparr>"
  let ?e2 = "example_env\<lparr>detect := always (Inl (LangDetectException (lit ''No features in text.'')))\<rparr>"
  let ?e3 = "example_env\<lparr>acomplete := always (Inr (lit ''Spanish''))\<rparr>"
  let ?e4 = "example_env\<lparr>acomplete := always (Inl (OtherException (lit ''Connection error.'')))\<rparr>"
  have a1: "detect ?e1 long_text = Inr (lit ''zh-cn'') \<and> \<not> ISO_639_1_PATTERN_match (lit ''zh-cn'')"
    by (simp add: model_defs short_text_def long_text_def)
  have a2: "detect ?e2 long_text = Inl (LangDetectException (lit ''No features in text.'')) \<and>
      is_Exception (LangDetectException (lit ''No features in text.''))"
    by (simp add: model_defs short_text_def long_text_def)
  have a3: "acomplete ?e3 (LANG_DETECT_PROMPT_format (take 100 short_text)) = Inr (lit ''Spanish'') \<and>
      py_lower (unicode_lower ?e3) (py_strip (lit ''Spanish'')) \<noteq> UNKNOWN_LANG_CODE \<and>
      \<not> ISO_639_1_PATTERN_match (py_lower (unicode_lower ?e3) (py_strip (lit ''Spanish'')))"
    by (simp add: model_defs short_text_def long_text_def)
  have a4: "acomplete ?e4 (LANG_DETECT_PROMPT_format (take 100 short_text)) =
        Inl (OtherException (lit ''Connection error.'')) \<and>
      is_Exception (OtherException (lit ''Connection error.''))"
    by (simp add: model_defs short_text_def long_text_def)
  have b1: "snd (detect_language_statistical ?e1 long_text) = Inr UNKNOWN_LANG_CODE"
    using detectors_absorb_Exception_instances [of ?e1 long_text] a1 by blast
  have b2: "snd (detect_language_statistical ?e2 long_text) = Inr UNKNOWN_LANG_CODE"
    using detectors_absorb_Exception_instances [of ?e2 long_text] a2 by blast
  have b3: "snd (detect_language_llm ?e3 short_text) = Inr UNKNOWN_LANG_CODE"
    using detectors_absorb_Exception_instances [of ?e3 short_text] a3 by blast
  have b4: "snd (detect_language_llm ?e4 short_text) = Inr UNKNOWN_LANG_CODE"
    using detectors_absorb_Exception_instances [of ?e4 short_text] a4 by blast
  from b1 b2 b3 b4 show ?thesis by blast
qed

subsection \<open>The shape of the detected code\<close>

lemma py_strip_last: "py_strip t = [] \<or> \<not> is_space (last (py_strip t))"
proof (cases "py_strip t = []")
  case True
  then show ?thesis by simp
next
  case False
  let ?xs = "rev (dropWhile is_space t)"
  have ne: "dropWhile is_space ?xs \<noteq> []"
    using False by (simp add: py_strip_def)
  then have "\<not> is_space (hd (dropWhile is_space ?xs))" by (rule hd_dropWhile)
  moreover have "last (py_strip t) = hd (dropWhile is_space ?xs)"
    using ne by (simp add: py_strip_def last_rev)
  ultimately show ?thesis by simp
qed

lemma ascii_lower_newline: "ascii_lower c = 10 \<Longrightarrow> c = 10"
  by (auto simp: ascii_lower_def split: if_splits)

lemma lower_from_last:
  assumes ok: "\<forall>w i. 128 \<le> w ! i \<longrightarrow> ul w i \<noteq> [] \<and> 10 \<notin> set (ul w i)"
  shows "s \<noteq> [] \<Longrightarrow> s = drop i whole \<Longrightarrow> \<not> is_space (last s) \<Longrightarrow>
     lower_from ul whole i s \<noteq> [] \<and> last (lower_from ul whole i s) \<noteq> 10"
proof (induction s arbitrary: i)
  case Nil
  then show ?case by simp
next
  case (Cons c cs)
  have ci: "whole ! i = c" and il: "i < length whole"
    using Cons.prems(2) by (metis nth_via_drop, metis drop_eq_Nil2 list.distinct(1) not_le)
  have cs: "cs = drop (Suc i) whole"
    using Cons.prems(2) by (metis drop_Suc list.sel(3) tl_drop)
  let ?h = "if c < 128 then [ascii_lower c] else ul whole i"
  have hne: "?h \<noteq> []" using ok ci by auto
  show ?case
  proof (cases "cs = []")
    case True
    have "\<not> is_space c" using Cons.prems(3) True by simp
    then have c10: "c \<noteq> 10" by (auto simp: is_space_def)
    have "last ?h \<noteq> 10"
    proof (cases "c < 128")
      case True
      then show ?thesis using c10 ascii_lower_newline by auto
    next
      case False
      then have "ul whole i \<noteq> [] \<and> 10 \<notin> set (ul whole i)" using ok ci by auto
      then show ?thesis using False by (metis last_in_set)
    qed
    then show ?thesis using True hne by simp
  next
    case False
    then have "\<not> is_space (last cs)" using Cons.prems(3) by simp
    then have "lower_from ul whole (Suc i) cs \<noteq> [] \<and> last (lower_from ul whole (Suc i) cs) \<noteq> 10"
      using Cons.IH [OF False cs] by simp
    then show ?thesis by simp
  qed
qed

lemma py_lower_strip_last:
  assumes "\<forall>w i. 128 \<le> w ! i \<longrightarrow> ul w i \<noteq> [] \<and> 10 \<notin> set (ul w i)"
    and "py_lower ul (py_strip out) \<noteq> []"
  shows "last (py_lower ul (py_strip out)) \<noteq> 10"
proof -
  have ne: "py_strip out \<noteq> []" using assms(2) by (auto simp: py_lower_def)
  then have "\<not> is_space (last (py_strip out))" using py_strip_last [of out] by simp
  then show ?thesis
    using lower_from_last [OF assms(1), of "py_strip out" 0 "py_strip out"] ne
    by (simp add: py_lower_def)
qed

lemma ISO_match_shape:
  "ISO_639_1_PATTERN_match s \<Longrightarrow>
     (length s = 2 \<and> list_all is_az s) \<or> (length s = 3 \<and> last s = 10)"
  by (induction s rule: ISO_639_1_PATTERN_match.induct) auto

lemma ascii_lower_az: "is_az c \<Longrightarrow> ascii_lower c = c"
  by (simp add: is_az_def ascii_lower_def)

lemma py_lower_two_letters:
  "length s = 2 \<Longrightarrow> list_all is_az s \<Longrightarrow> py_lower ul s = s"
proof -
  assume l: "length s = 2" and a: "list_all is_az s"
  then obtain a b where s: "s = [a, b]"
    by (metis (no_types, opaque_lifting) One_nat_def Suc_1 length_0_conv length_Suc_conv)
  then have "is_az a" "is_az b" using a by simp_all
  then have "a < 128" "b < 128" by (simp_all add: is_az_def)
  then show ?thesis using s \<open>is_az a\<close> \<open>is_az b\<close> by (simp add: py_lower_def ascii_lower_az)
qed

lemma en_shape: "length (lit ''en'') = 2 \<and> list_all is_az (lit ''en'')"
  by (simp add: lit_def is_az_def)

lemma statistical_shape:
  assumes "\<forall>d. detect env t = Inr d \<longrightarrow> 10 \<notin> set d"
    and "snd (detect_language_statistical env t) = Inr code"
  shows "(length code = 2 \<and> list_all is_az code) \<or> code = UNKNOWN_LANG_CODE"
proof (cases "detect env t")
  case (Inl e)
  then show ?thesis using assms(2)
    by (auto simp: detect_language_statistical_def split: if_splits)
next
  case (Inr d)
  show ?thesis
  proof (cases "ISO_639_1_PATTERN_match d")
    case True
    have "10 \<notin> set d" using assms(1) Inr by simp
    then have "\<not> (d \<noteq> [] \<and> last d = 10)" by (metis last_in_set)
    then have sh: "length d = 2 \<and> list_all is_az d"
      using ISO_match_shape [OF True] by auto
    then have "py_lower (unicode_lower env) d = d" by (simp add: py_lower_two_letters)
    then show ?thesis using assms(2) Inr True sh
      by (simp add: detect_language_statistical_def)
  next
    case False
    then show ?thesis using assms(2) Inr by (simp add: detect_language_statistical_def)
  qed
qed

lemma llm_shape:
  assumes "\<forall>w i. 128 \<le> w ! i \<longrightarrow> unicode_lower env w i \<noteq> [] \<and> 10 \<notin> set (unicode_lower env w i)"
    and "snd (detect_language_llm env t) = Inr code"
  shows "(length code = 2 \<and> list_all is_az code) \<or> code = UNKNOWN_LANG_CODE"
proof (cases "acomplete env (LANG_DETECT_PROMPT_format (take 100 t))")
  case (Inl e)
  then show ?thesis using assms(2)
    by (auto simp: detect_language_llm_def Let_def split: if_splits)
next
  case (Inr out)
  let ?d = "py_lower (unicode_lower env) (py_strip out)"
  have dt: "(if 100 < length t then take 100 t else t) = take 100 t" by simp
  have r: "snd (detect_language_llm env t) =
      (if ?d = UNKNOWN_LANG_CODE \<or> ISO_639_1_PATTERN_match ?d then Inr ?d else Inr UNKNOWN_LANG_CODE)"
    unfolding detect_language_llm_def Let_def dt using Inr by simp
  show ?thesis
  proof (cases "?d = UNKNOWN_LANG_CODE")
    case True
    then show ?thesis using assms(2) r by auto
  next
    case nu: False
    show ?thesis
    proof (cases "ISO_639_1_PATTERN_match ?d")
      case True
      then have "?d \<noteq> []" by auto
      then have "last ?d \<noteq> 10" using py_lower_strip_last [OF assms(1)] by simp
      then have "length ?d = 2 \<and> list_all is_az ?d" using ISO_match_shape [OF True] by auto
      then show ?thesis using assms(2) r True by auto
    next
      case False
      then show ?thesis using assms(2) r nu by auto
    qed
  qed
qed

text \<open>
  C8.  Whatever the input text, a value \<open>_detect_language\<close> returns is a code of two
  lower-case letters or the unknown code, so it is never empty, never holds an
  upper-case letter and has no other shape.  The two hypotheses say what the libraries
  outside the repository do: \<open>langdetect.detect\<close> answers with the name of one of its
  language profiles, which holds no newline, and \<open>str.lower\<close> replaces a character
  from 128 on by at least one character, none of them a newline.
\<close>

theorem detect_language_returns_code_or_unknown:
  assumes "\<forall>d. detect env t = Inr d \<longrightarrow> 10 \<notin> set d"
    and "\<forall>w i. 128 \<le> w ! i \<longrightarrow> unicode_lower env w i \<noteq> [] \<and> 10 \<notin> set (unicode_lower env w i)"
    and "snd (detect_language env t) = Inr code"
  shows "(length code = 2 \<and> list_all is_az code) \<or> code = UNKNOWN_LANG_CODE"
proof (cases "list_ex (\<lambda>marker. py_in marker (py_lower (unicode_lower env) t)) english_markers")
  case True
  then have "code = lit ''en''" using assms(3) by (simp add: detect_language_def)
  then show ?thesis using en_shape by simp
next
  case False
  then have nm: "\<forall>m \<in> set english_markers. \<not> py_in m (py_lower (unicode_lower env) t)"
    by (simp add: list_ex_iff)
  obtain tc where tier: "snd (tier_detect env t) = Inr tc"
    and cases: "code = lit ''en'' \<or> code = tc"
    using assms(3) unfolding detect_language_no_marker [OF nm]
    by (auto split: sum.splits if_splits)
  have "(length tc = 2 \<and> list_all is_az tc) \<or> tc = UNKNOWN_LANG_CODE"
  proof (cases "int (length (py_split t)) \<le> SHORT_INPUT_WORD_THRESHOLD env")
    case True
    then have "snd (detect_language_llm env t) = Inr tc"
      using tier by (simp add: tier_detect_def Let_def split: prod.splits)
    then show ?thesis using llm_shape [OF assms(2)] by blast
  next
    case False
    then have "snd (detect_language_statistical env t) = Inr tc"
      using tier by (simp add: tier_detect_def Let_def split: prod.splits)
    then show ?thesis using statistical_shape [OF assms(1)] by blast
  qed
  then show ?thesis using cases en_shape by auto
qed

theorem detect_language_returns_code_or_unknown_witness:
  "snd (detect_language example_env long_text) = Inr (lit ''es'') \<and>
   length (lit ''es'') = 2 \<and> list_all is_az (lit ''es'') \<and>
   snd (detect_language (example_env\<lparr>acomplete := always (Inr (lit ''Spanish''))\<rparr>) short_text) =
     Inr UNKNOWN_LANG_CODE"
proof -
  let ?e2 = "example_env\<lparr>acomplete := always (Inr (lit ''Spanish''))\<rparr>"
  have h1: "\<forall>d. detect example_env long_text = Inr d \<longrightarrow> 10 \<notin> set d"
    by (simp add: model_defs)
  have h2: "\<forall>w i. 128 \<le> w ! i \<longrightarrow>
      unicode_lower example_env w i \<noteq> [] \<and> 10 \<notin> set (unicode_lower example_env w i)"
    by (simp add: model_defs)
  have h1': "\<forall>d. detect ?e2 short_text = Inr d \<longrightarrow> 10 \<notin> set d"
    by (simp add: model_defs)
  have h2': "\<forall>w i. 128 \<le> w ! i \<longrightarrow>
      unicode_lower ?e2 w i \<noteq> [] \<and> 10 \<notin> set (unicode_lower ?e2 w i)"
    by (simp add: model_defs)
  have r1: "snd (detect_language example_env long_text) = Inr (lit ''es'')"
    by (simp add: model_defs long_text_def Let_def)
  have r2: "snd (detect_language ?e2 short_text) = Inr UNKNOWN_LANG_CODE"
    by (simp add: model_defs short_text_def Let_def)
  have u: "lit ''es'' \<noteq> UNKNOWN_LANG_CODE"
    by (simp add: model_defs)
  show ?thesis
    using detect_language_returns_code_or_unknown [OF h1 h2 r1]
      detect_language_returns_code_or_unknown [OF h1' h2' r2] r1 r2 u
    by simp
qed

text \<open>
  The hypothesis on the classifier is used: the pattern accepts two letters followed by
  a newline, and the statistical detector returns what the pattern accepted.  A
  classifier that answered \<open>fr\<close> and a newline would have that answer returned, on a
  text above the word threshold whose share of ASCII characters is not above 0.9.
\<close>

lemma pattern_accepts_trailing_newline:
  "detect_language (example_env\<lparr>detect := always (Inr (lit ''fr'' @ [10]))\<rparr>) accented_text =
     ([Call_detect_language_statistical accented_text, Call_detect accented_text],
      Inr (lit ''fr'' @ [10]))"
  by (simp add: model_defs accented_text_def Let_def)

subsection \<open>The translation step\<close>

lemma unsupported_message_eq:
  "unsupported_message code =
     lit ''Sorry, I currently only support English ('en') and Spanish ('es'). Detected: '' @ code"
  by (simp add: unsupported_message_def lit_def)

text \<open>
  C1.  In a run of \<open>translate_text\<close> the detected code is the value the run gave its
  variable \<open>detected_lang\<close>: the code \<open>_detect_language\<close> returned, in a run that got
  past the check for blank input.  For every input text, non-empty or not, the run
  calls the translator, once and with the text, exactly when it detected a code that is
  \<open>en\<close>, \<open>es\<close> or the unknown code; and when it detected any other code it returns the
  unsupported-language message naming that code, and (by the first part) does not call
  the translator.
\<close>

theorem translator_called_iff_supported_or_unknown:
  "filter is_translate_call (calls (translate_text env t)) =
     (if \<exists>code. detected (translate_text env t) = Some code \<and>
           (code \<in> set SUPPORTED_LANGS \<or> code = UNKNOWN_LANG_CODE)
      then [Call_translate t] else []) \<and>
   (\<forall>code. detected (translate_text env t) = Some code \<and>
       code \<notin> set SUPPORTED_LANGS \<and> code \<noteq> UNKNOWN_LANG_CODE \<longrightarrow>
       outcome (translate_text env t) =
         Inr (lit ''Sorry, I currently only support English ('en') and Spanish ('es'). Detected: '' @ code)) \<and>
   (\<forall>code. detected (translate_text env t) = Some code \<longleftrightarrow>
       py_strip t \<noteq> [] \<and> snd (detect_language env t) = Inr code)"
proof (cases "py_strip t = []")
  case True
  then show ?thesis by (simp add: translate_text_def)
next
  case False
  obtain cs r where d: "detect_language env t = (cs, r)" by (cases "detect_language env t")
  have nt: "filter is_translate_call cs = []"
    using detect_language_never_translates [of env t] d by simp
  show ?thesis
  proof (cases r)
    case (Inl e)
    then show ?thesis using False d nt by (simp add: translate_text_def)
  next
    case (Inr code)
    show ?thesis
    proof (cases "code \<in> set SUPPORTED_LANGS \<or> code = UNKNOWN_LANG_CODE")
      case True
      then have "translate_text env t =
        \<lparr>calls = Call_detect_language t # cs @ [Call_translate t], detected = Some code,
         outcome = outcome (translate_text env t)\<rparr>"
        using False d Inr by (auto simp add: translate_text_def)
      then have c: "calls (translate_text env t) = Call_detect_language t # cs @ [Call_translate t]"
        and dd: "detected (translate_text env t) = Some code"
        by (metis run.select_convs(1), metis run.select_convs(2))
      show ?thesis using True False d Inr nt unfolding c dd by auto
    next
      case nsup: False
      then have "translate_text env t =
        \<lparr>calls = Call_detect_language t # cs, detected = Some code,
         outcome = Inr (unsupported_message code)\<rparr>"
        using False d Inr by (auto simp add: translate_text_def)
      then have c: "calls (translate_text env t) = Call_detect_language t # cs"
        and dd: "detected (translate_text env t) = Some code"
        and oo: "outcome (translate_text env t) = Inr (unsupported_message code)"
        by simp_all
      show ?thesis using nsup False d Inr nt unfolding c dd oo unsupported_message_eq by auto
    qed
  qed
qed

theorem translator_called_iff_supported_or_unknown_witness:
  "detected (translate_text example_env short_text) = Some (lit ''es'') \<and>
   filter is_translate_call (calls (translate_text example_env short_text)) =
     [Call_translate short_text] \<and>
   detected (translate_text (example_env\<lparr>acomplete := always (Inr (lit ''fr''))\<rparr>) question_text) =
     Some (lit ''fr'') \<and>
   filter is_translate_call
     (calls (translate_text (example_env\<lparr>acomplete := always (Inr (lit ''fr''))\<rparr>) question_text)) = [] \<and>
   outcome (translate_text (example_env\<lparr>acomplete := always (Inr (lit ''fr''))\<rparr>) question_text) =
     Inr (lit ''Sorry, I currently only support English ('en') and Spanish ('es'). Detected: fr'')"
proof -
  let ?fr = "example_env\<lparr>acomplete := always (Inr (lit ''fr''))\<rparr>"
  have d1: "detected (translate_text example_env short_text) = Some (lit ''es'')"
    by (simp add: model_defs short_text_def question_text_def)
  have d2: "detected (translate_text ?fr question_text) = Some (lit ''fr'')"
    by (simp add: model_defs short_text_def question_text_def)
  have s1: "lit ''es'' \<in> set SUPPORTED_LANGS"
    by (simp add: model_defs short_text_def question_text_def)
  have s2: "lit ''fr'' \<notin> set SUPPORTED_LANGS \<and> lit ''fr'' \<noteq> UNKNOWN_LANG_CODE"
    by (simp add: model_defs short_text_def question_text_def)
  have m: "lit ''Sorry, I currently only support English ('en') and Spanish ('es'). Detected: '' @ lit ''fr'' =
      lit ''Sorry, I currently only support English ('en') and Spanish ('es'). Detected: fr''"
    by (simp add: lit_def)
  have c1: "filter is_translate_call (calls (translate_text example_env short_text)) =
      [Call_translate short_text]"
    using translator_called_iff_supported_or_unknown [of example_env short_text] d1 s1 by simp
  have c2: "filter is_translate_call (calls (translate_text ?fr question_text)) = []"
    using translator_called_iff_supported_or_unknown [of ?fr question_text] d2 s2 by simp
  have o2: "outcome (translate_text ?fr question_text) =
      Inr (lit ''Sorry, I currently only support English ('en') and Spanish ('es'). Detected: '' @ lit ''fr'')"
    using translator_called_iff_supported_or_unknown [of ?fr question_text] d2 s2 by blast
  from d1 d2 c1 c2 o2 m show ?thesis by simp
qed

text \<open>
  C7, as stated, fails: when the translator raises an exception that is no instance of
  \<open>Exception\<close> (here the \<open>CancelledError\<close> of a cancelled await), neither handler
  catches it, and \<open>translate_text\<close> raises it as it is, not wrapped in an \<open>AppError\<close>.
\<close>

theorem translator_non_Exception_is_not_wrapped:
  "outcome (translate_text (example_env\<lparr>translate := always (Inl cancelled)\<rparr>) short_text) =
     Inl cancelled"
  by (simp add: model_defs short_text_def cancelled_def)

text \<open>
  C7, amended.  When \<open>translate_text\<close> has called the translator and the translator
  raised \<open>e\<close>: a \<open>TranslationError\<close> is raised again unchanged; any other instance of
  \<open>Exception\<close> is wrapped into an \<open>AppError\<close> whose cause it is; an exception that is
  no instance of \<open>Exception\<close> is raised as it is.
\<close>

theorem translator_failure_handling:
  assumes "list_ex is_translate_call (calls (translate_text env t))"
    and "translate env t = Inl e"
  shows "outcome (translate_text env t) =
     (if is_TranslationError e then Inl e
      else if is_Exception e
      then Inl (AppError (lit ''An unexpected error occurred during the translation process.'')
             (Some e))
      else Inl e)"
proof -
  have ne: "py_strip t \<noteq> []"
    using assms(1) by (auto simp: translate_text_def)
  obtain cs r where d: "detect_language env t = (cs, r)" by (cases "detect_language env t")
  have nt: "filter is_translate_call cs = []"
    using detect_language_never_translates [of env t] d by simp
  then have nt': "\<not> list_ex is_translate_call cs"
    by (simp add: list_ex_iff filter_empty_conv)
  show ?thesis
  proof (cases r)
    case (Inl x)
    then show ?thesis using assms(1) ne d nt' by (simp add: translate_text_def)
  next
    case (Inr code)
    then show ?thesis using assms ne d nt'
      by (simp add: translate_text_def split: if_splits)
  qed
qed

theorem translator_failure_handling_witness:
  "outcome (translate_text
      (example_env\<lparr>translate := always (Inl (TranslationError (lit ''Malformed model output'')))\<rparr>)
      short_text) =
     Inl (TranslationError (lit ''Malformed model output'')) \<and>
   outcome (translate_text
      (example_env\<lparr>translate := always (Inl (OtherException (lit ''Request timed out.'')))\<rparr>)
      short_text) =
     Inl (AppError (lit ''An unexpected error occurred during the translation process.'')
            (Some (OtherException (lit ''Request timed out.''))))"
proof -
  let ?e1 = "example_env\<lparr>translate := always (Inl (TranslationError (lit ''Malformed model output'')))\<rparr>"
  let ?e2 = "example_env\<lparr>translate := always (Inl (OtherException (lit ''Request timed out.'')))\<rparr>"
  have c1: "list_ex is_translate_call (calls (translate_text ?e1 short_text))"
    by (simp add: model_defs short_text_def)
  have c2: "list_ex is_translate_call (calls (translate_text ?e2 short_text))"
    by (simp add: model_defs short_text_def)
  have t1: "translate ?e1 short_text = Inl (TranslationError (lit ''Malformed model output''))"
    by (simp add: model_defs short_text_def)
  have t2: "translate ?e2 short_text = Inl (OtherException (lit ''Request timed out.''))"
    by (simp add: model_defs short_text_def)
  show ?thesis
    using translator_failure_handling [OF c1 t1] translator_failure_handling [OF c2 t2]
    by simp
qed

end
